theory Spec2Isabelle
  imports Complex_Main "HOL-Library.Word" "HOL-Library.Signed_Division"
begin

section \<open>The circuit breaker of \<^verbatim>\<open>circuitbreaker.go\<close>\<close>

text \<open>
  The development embeds \<^verbatim>\<open>Simple\<close>, \<^verbatim>\<open>Provision\<close>, \<^verbatim>\<open>OK\<close>, \<^verbatim>\<open>RecordMetric\<close> and
  \<^verbatim>\<open>checkAndSet\<close>. The statistics engine (\<^verbatim>\<open>memmetrics.RTMetrics\<close>), the timer of the
  Go runtime and the conversion of an out-of-range \<^verbatim>\<open>float64\<close> to \<^verbatim>\<open>int64\<close> are not
  part of the source file: they are parameters of the model.
\<close>

subsection \<open>Numbers\<close>

text \<open>
  A \<^verbatim>\<open>float64\<close> is a finite value, an infinity or a NaN. The source never does
  arithmetic on one: it compares two of them with \<^verbatim>\<open>>\<close> and converts one to
  \<^verbatim>\<open>int64\<close>, so the finite values are embedded in the reals (both zeros are \<open>Finite 0\<close>).
\<close>

datatype float64 = Finite real | PosInf | NegInf | NaN

text \<open>Go's \<^verbatim>\<open>x > y\<close> on \<^verbatim>\<open>float64\<close>: false as soon as one side is a NaN.\<close>

fun float_gt :: "float64 \<Rightarrow> float64 \<Rightarrow> bool" where
  "float_gt NaN y = False"
| "float_gt x NaN = False"
| "float_gt (Finite a) (Finite b) = (b < a)"
| "float_gt (Finite a) PosInf = False"
| "float_gt (Finite a) NegInf = True"
| "float_gt PosInf PosInf = False"
| "float_gt PosInf y = True"
| "float_gt NegInf y = False"

text \<open>Rounding towards zero, as Go's conversions and its integer division do.\<close>

definition toZero :: "real \<Rightarrow> int" where
  "toZero r = (if 0 \<le> r then \<lfloor>r\<rfloor> else \<lceil>r\<rceil>)"

text \<open>
  \<^verbatim>\<open>int64(x)\<close> for a \<^verbatim>\<open>float64\<close> \<open>x\<close>: the fraction is discarded. When the truncated
  value is not an \<^verbatim>\<open>int64\<close> (or \<open>x\<close> is not finite) the language leaves the result to
  the implementation: \<open>oor\<close> is what the platform returns there.
\<close>

definition int64_of_float64 :: "(float64 \<Rightarrow> 64 word) \<Rightarrow> float64 \<Rightarrow> 64 word" where
  "int64_of_float64 oor x =
     (case x of
        Finite r \<Rightarrow>
          if - (2 ^ 63) \<le> toZero r \<and> toZero r < 2 ^ 63 then word_of_int (toZero r)
          else oor x
      | _ \<Rightarrow> oor x)"

text \<open>\<^verbatim>\<open>time.Millisecond\<close>, \<^verbatim>\<open>time.Second\<close>: a \<^verbatim>\<open>time.Duration\<close> counts nanoseconds.\<close>

definition Millisecond :: "64 word" where
  "Millisecond = 1000000"

definition Second :: "64 word" where
  "Second = 1000000000"

subsection \<open>Data\<close>

record Config =
  Threshold :: float64
  Factor :: string
  TripDuration :: "64 word"

text \<open>
  \<^verbatim>\<open>Simple\<close> embeds \<^verbatim>\<open>Config\<close>, so its fields are read as \<^verbatim>\<open>c.Threshold\<close>; the record
  extends \<open>Config\<close> the same way. \<open>metrics\<close> is a pointer: \<open>None\<close> is nil, \<open>Some m\<close>
  points to an engine whose current contents are \<open>m\<close>.
\<close>

record 'm Simple = Config +
  tripped :: "32 word"
  cbFactor :: "32 word"
  metrics :: "'m option"

text \<open>
  What the breaker calls outside its own file. \<open>'m\<close> is the contents of an
  \<^verbatim>\<open>RTMetrics\<close>, \<open>'h\<close> a latency histogram; an \<^verbatim>\<open>error\<close> is its message.
\<close>

record ('m, 'h) deps =
  NewRTMetrics :: "string + 'm"
  Record :: "int \<Rightarrow> 64 word \<Rightarrow> 'm \<Rightarrow> 'm"
  NetworkErrorRatio :: "'m \<Rightarrow> float64"
  LatencyHistogram :: "'m \<Rightarrow> string + 'h"
  LatencyAtQuantile :: "'h \<Rightarrow> float64 \<Rightarrow> 64 word"
  ResponseCodeRatio :: "'m \<Rightarrow> int \<Rightarrow> int \<Rightarrow> int \<Rightarrow> int \<Rightarrow> float64"
  Reset :: "'m \<Rightarrow> 'm"
  outOfRange :: "float64 \<Rightarrow> 64 word"

subsection \<open>Constants and the factor table\<close>

definition factorLatency :: "32 word" where
  "factorLatency = 1"

definition factorErrorRatio :: "32 word" where
  "factorErrorRatio = 2"

definition factorStatusCodeRatio :: "32 word" where
  "factorStatusCodeRatio = 3"

definition defaultTripDuration :: "64 word" where
  "defaultTripDuration = 5 * Second"

definition typeCB :: "string \<rightharpoonup> 32 word" where
  "typeCB = map_of
     [(''latency'', factorLatency),
      (''error_ratio'', factorErrorRatio),
      (''status_ratio'', factorStatusCodeRatio)]"

subsection \<open>Provision and OK\<close>

text \<open>The result is the returned \<^verbatim>\<open>error\<close> (\<open>None\<close> is nil) and the receiver afterwards.\<close>

definition Provision :: "('m, 'h) deps \<Rightarrow> 'm Simple \<Rightarrow> string option \<times> 'm Simple" where
  "Provision E c =
     (case typeCB (Factor c) of
        None \<Rightarrow> (Some ''type is not defined'', c)
      | Some f \<Rightarrow>
          let c1 = (if TripDuration c = 0 then c\<lparr>TripDuration := defaultTripDuration\<rparr> else c)
          in (case NewRTMetrics E of
                Inl err \<Rightarrow> (Some (''cannot create new metrics: '' @ err), c1)
              | Inr mt \<Rightarrow> (None, c1\<lparr>cbFactor := f, metrics := Some mt, tripped := 0\<rparr>)))"

text \<open>\<^verbatim>\<open>OK\<close> has a pointer receiver: the model returns the receiver next to the answer.\<close>

definition OK :: "'m Simple \<Rightarrow> bool \<times> 'm Simple" where
  "OK c = (tripped c = 0, c)"

subsection \<open>The policy switch of checkAndSet\<close>

text \<open>
  Lines 86 to 110: \<open>IsTripped b\<close> is the value of \<^verbatim>\<open>isTripped\<close> when line 112 is
  reached, \<open>EarlyReturn\<close> the \<^verbatim>\<open>return\<close> of line 98, \<open>NilDeref\<close> the panic of a query
  through a nil \<^verbatim>\<open>metrics\<close>.
\<close>

datatype verdict = IsTripped bool | EarlyReturn | NilDeref

definition isTripped :: "('m, 'h) deps \<Rightarrow> 'm Simple \<Rightarrow> verdict" where
  "isTripped E c =
     (if cbFactor c = factorErrorRatio then
        (case metrics c of
           None \<Rightarrow> NilDeref
         | Some m \<Rightarrow> IsTripped (float_gt (NetworkErrorRatio E m) (Threshold c)))
      else if cbFactor c = factorLatency then
        (case metrics c of
           None \<Rightarrow> NilDeref
         | Some m \<Rightarrow>
             (case LatencyHistogram E m of
                Inl err \<Rightarrow> EarlyReturn
              | Inr hist \<Rightarrow>
                  let l = LatencyAtQuantile E hist (Threshold c)
                  in IsTripped (sint (int64_of_float64 (outOfRange E) (Threshold c))
                                  < sint l sdiv sint Millisecond)))
      else if cbFactor c = factorStatusCodeRatio then
        (case metrics c of
           None \<Rightarrow> NilDeref
         | Some m \<Rightarrow> IsTripped (float_gt (ResponseCodeRatio E m 500 600 0 600) (Threshold c)))
      else IsTripped False)"

subsection \<open>RecordMetric and checkAndSet, statement by statement\<close>

text \<open>
  A call is a program counter and the breaker it works on. The counter names the next
  statement: \<open>AtRecord\<close> line 80, \<open>AtSwitch\<close> lines 86 to 112, \<open>AtReset\<close> line 113,
  \<open>AtInc\<close> line 114, \<open>AtNewTimer\<close> line 117, \<open>AtRecv\<close> line 118 with the instant at
  which the timer fires, \<open>AtDec\<close> line 120.
\<close>

datatype pc =
    AtRecord int "64 word"
  | AtSwitch
  | AtReset
  | AtInc
  | AtNewTimer
  | AtRecv int
  | AtDec
  | Returned
  | Panicked

text \<open>
  One statement of the call at clock reading \<open>now\<close> (nanoseconds, unbounded).
  \<open>None\<close>: the call cannot move, because it is over or because it is blocked on the
  channel of a timer that has not fired. A timer made at \<open>now\<close> for \<open>d\<close> fires no
  earlier than \<open>now + d\<close>.
\<close>

fun step :: "('m, 'h) deps \<Rightarrow> int \<Rightarrow> pc \<times> 'm Simple \<Rightarrow> (pc \<times> 'm Simple) option" where
  "step E now (AtRecord statusCode latency, c) =
     (case metrics c of
        None \<Rightarrow> Some (Panicked, c)
      | Some m \<Rightarrow> Some (AtSwitch, c\<lparr>metrics := Some (Record E statusCode latency m)\<rparr>))"
| "step E now (AtSwitch, c) =
     (case isTripped E c of
        NilDeref \<Rightarrow> Some (Panicked, c)
      | EarlyReturn \<Rightarrow> Some (Returned, c)
      | IsTripped b \<Rightarrow> Some (if b then AtReset else Returned, c))"
| "step E now (AtReset, c) =
     (case metrics c of
        None \<Rightarrow> Some (Panicked, c)
      | Some m \<Rightarrow> Some (AtInc, c\<lparr>metrics := Some (Reset E m)\<rparr>))"
| "step E now (AtInc, c) = Some (AtNewTimer, c\<lparr>tripped := tripped c + 1\<rparr>)"
| "step E now (AtNewTimer, c) = Some (AtRecv (now + sint (TripDuration c)), c)"
| "step E now (AtRecv deadline, c) = (if deadline \<le> now then Some (AtDec, c) else None)"
| "step E now (AtDec, c) = Some (Returned, c\<lparr>tripped := tripped c + (- 1)\<rparr>)"
| "step E now (Returned, c) = None"
| "step E now (Panicked, c) = None"

text \<open>
  A call running alone: the caller moves as soon as it can, and when it is blocked on
  the timer's channel it waits until the timer fires. \<open>wake now p\<close> is the first
  instant from \<open>now\<close> on at which the statement at \<open>p\<close> can run.
\<close>

fun wake :: "int \<Rightarrow> pc \<Rightarrow> int" where
  "wake now (AtRecv deadline) = max now deadline"
| "wake now p = now"

fun rank :: "pc \<Rightarrow> nat" where
  "rank (AtRecord statusCode latency) = 7"
| "rank AtSwitch = 6"
| "rank AtReset = 5"
| "rank AtInc = 4"
| "rank AtNewTimer = 3"
| "rank (AtRecv deadline) = 2"
| "rank AtDec = 1"
| "rank Returned = 0"
| "rank Panicked = 0"

text \<open>
  The statements a call running alone executes from \<open>(p, c)\<close>, in order: each entry is
  the instant of a statement, the program counter after it and the breaker after it.
\<close>

function run :: "('m, 'h) deps \<Rightarrow> int \<Rightarrow> pc \<times> 'm Simple \<Rightarrow> (int \<times> pc \<times> 'm Simple) list" where
  "run E now (p, c) =
     (case step E (wake now p) (p, c) of
        None \<Rightarrow> []
      | Some cfg \<Rightarrow> (wake now p, cfg) # run E (wake now p) cfg)"
  by pat_completeness auto
termination
proof (relation "measure (\<lambda>(E, now, p, c). rank p)")
  fix E :: "('m, 'h) deps" and now :: int and p :: pc and c :: "'m Simple" and cfg
  assume "step E (wake now p) (p, c) = Some cfg"
  then have "rank (fst cfg) < rank p"
    by (cases p) (auto split: option.splits verdict.splits if_splits)
  then show "((E, wake now p, cfg), (E, now, p, c)) \<in> measure (\<lambda>(E, now, p, c). rank p)"
    by (cases cfg) simp
qed simp

definition checkAndSet :: "('m, 'h) deps \<Rightarrow> int \<Rightarrow> 'm Simple \<Rightarrow> (int \<times> pc \<times> 'm Simple) list" where
  "checkAndSet E now c = run E now (AtSwitch, c)"

definition RecordMetric ::
  "('m, 'h) deps \<Rightarrow> int \<Rightarrow> int \<Rightarrow> 64 word \<Rightarrow> 'm Simple \<Rightarrow> (int \<times> pc \<times> 'm Simple) list" where
  "RecordMetric E now statusCode latency c = run E now (AtRecord statusCode latency, c)"

text \<open>A trip: the call executes line 114, the increment of \<^verbatim>\<open>tripped\<close>.\<close>

definition tripOccurs :: "(int \<times> pc \<times> 'm Simple) list \<Rightarrow> bool" where
  "tripOccurs tr = (AtNewTimer \<in> set (map (\<lambda>(t, p, c). p) tr))"

subsection \<open>Calls among other goroutines\<close>






subsection \<open>An engine to run the model on\<close>

text \<open>
  The smallest statistics engine: its window holds the last observation only. It has
  no latency distribution while the window is empty; a network error is a 502 or a 504.
\<close>

definition window1 :: "((int \<times> 64 word) option, 64 word) deps" where
  "window1 =
     \<lparr> NewRTMetrics = Inr None,
       Record = (\<lambda>statusCode latency m. Some (statusCode, latency)),
       NetworkErrorRatio =
         (\<lambda>m. case m of
                 None \<Rightarrow> Finite 0
               | Some (s, l) \<Rightarrow> Finite (if s = 502 \<or> s = 504 then 1 else 0)),
       LatencyHistogram = (\<lambda>m. case m of None \<Rightarrow> Inl ''empty window'' | Some (s, l) \<Rightarrow> Inr l),
       LatencyAtQuantile = (\<lambda>h q. h),
       ResponseCodeRatio =
         (\<lambda>m a b c d. case m of
                 None \<Rightarrow> Finite 0
               | Some (s, l) \<Rightarrow>
                   Finite (if c \<le> s \<and> s < d \<and> a \<le> s \<and> s < b then 1 else 0)),
       Reset = (\<lambda>m. None),
       outOfRange = (\<lambda>x. - (2 ^ 63)) \<rparr>"

text \<open>A breaker as the configuration loader leaves it, before \<^verbatim>\<open>Provision\<close>.\<close>

definition configured :: "float64 \<Rightarrow> string \<Rightarrow> 64 word \<Rightarrow> 'm Simple" where
  "configured threshold factor tripDuration =
     \<lparr> Threshold = threshold, Factor = factor, TripDuration = tripDuration,
       tripped = 0, cbFactor = 0, metrics = None \<rparr>"

section \<open>Properties\<close>

subsection \<open>The call running alone\<close>

lemma isTripped_True_metrics: "isTripped E c = IsTripped True \<Longrightarrow> \<exists>m. metrics c = Some m"
  by (auto simp: isTripped_def split: if_splits option.splits sum.splits)

lemma run_trip:
  assumes "isTripped E c = IsTripped True" and "metrics c = Some m"
  shows "run E now (AtSwitch, c) =
    [(now, AtReset, c),
     (now, AtInc, c\<lparr>metrics := Some (Reset E m)\<rparr>),
     (now, AtNewTimer, c\<lparr>metrics := Some (Reset E m), tripped := tripped c + 1\<rparr>),
     (now, AtRecv (now + sint (TripDuration c)),
        c\<lparr>metrics := Some (Reset E m), tripped := tripped c + 1\<rparr>),
     (max now (now + sint (TripDuration c)), AtDec,
        c\<lparr>metrics := Some (Reset E m), tripped := tripped c + 1\<rparr>),
     (max now (now + sint (TripDuration c)), Returned, c\<lparr>metrics := Some (Reset E m)\<rparr>)]"
  using assms by simp

lemma run_no_trip:
  assumes "isTripped E c = IsTripped False \<or> isTripped E c = EarlyReturn"
  shows "run E now (AtSwitch, c) = [(now, Returned, c)]"
  using assms by auto

lemma tripOccurs_iff:
  assumes "isTripped E c \<noteq> NilDeref"
  shows "tripOccurs (checkAndSet E now c) \<longleftrightarrow> isTripped E c = IsTripped True"
proof (cases "isTripped E c")
  case (IsTripped b)
  show ?thesis
  proof (cases b)
    case True
    with IsTripped have t: "isTripped E c = IsTripped True"
      by simp
    then obtain m where "metrics c = Some m"
      using isTripped_True_metrics by blast
    with t show ?thesis
      by (simp add: tripOccurs_def checkAndSet_def)
  next
    case False
    with IsTripped show ?thesis
      by (simp add: tripOccurs_def checkAndSet_def run_no_trip)
  qed
next
  case EarlyReturn
  then show ?thesis by (simp add: tripOccurs_def checkAndSet_def run_no_trip)
next
  case NilDeref
  with assms show ?thesis by simp
qed

text \<open>
  What a check does once the switch has set \<^verbatim>\<open>isTripped\<close>: the six statements of the
  trip with the breaker after each of them, or the plain return.
\<close>

lemma checkAndSet_verdict:
  assumes "isTripped E c = IsTripped b" and "metrics c = Some m"
  shows "checkAndSet E now c =
    (if b then
       [(now, AtReset, c),
        (now, AtInc, c\<lparr>metrics := Some (Reset E m)\<rparr>),
        (now, AtNewTimer, c\<lparr>metrics := Some (Reset E m), tripped := tripped c + 1\<rparr>),
        (now, AtRecv (now + sint (TripDuration c)),
           c\<lparr>metrics := Some (Reset E m), tripped := tripped c + 1\<rparr>),
        (max now (now + sint (TripDuration c)), AtDec,
           c\<lparr>metrics := Some (Reset E m), tripped := tripped c + 1\<rparr>),
        (max now (now + sint (TripDuration c)), Returned, c\<lparr>metrics := Some (Reset E m)\<rparr>)]
     else [(now, Returned, c)])"
proof (cases b)
  case True
  with assms have "isTripped E c = IsTripped True" by simp
  from run_trip [OF this assms(2), of now] True show ?thesis
    unfolding checkAndSet_def by simp
next
  case False
  with assms have "isTripped E c = IsTripped False \<or> isTripped E c = EarlyReturn" by simp
  from run_no_trip [OF this, of now] False show ?thesis
    unfolding checkAndSet_def by simp
qed

subsection \<open>Whole milliseconds\<close>

lemma sdiv_toZero: "(L::int) sdiv 1000000 = toZero (real_of_int L / 1000000)"
proof (cases "0 \<le> L")
  case True
  then have "L sdiv 1000000 = L div 1000000"
    by (simp add: signed_divide_int_def sgn_if)
  also have "\<dots> = \<lfloor>real_of_int L / 1000000\<rfloor>"
    using floor_divide_of_int_eq [of L 1000000, where ?'a = real] by simp
  finally show ?thesis using True by (simp add: toZero_def)
next
  case False
  then have "L sdiv 1000000 = - ((- L) div 1000000)"
    by (simp add: signed_divide_int_def sgn_if)
  also have "\<dots> = - \<lfloor>real_of_int (- L) / 1000000\<rfloor>"
    using floor_divide_of_int_eq [of "- L" 1000000, where ?'a = real] by simp
  also have "\<dots> = \<lceil>real_of_int L / 1000000\<rceil>"
    by (simp add: ceiling_def)
  finally show ?thesis using False by (simp add: toZero_def divide_less_0_iff)
qed

lemma sint_int64_of_float64:
  assumes "- (2 ^ 63) \<le> toZero t" and "toZero t < 2 ^ 63"
  shows "sint (int64_of_float64 oor (Finite t)) = toZero t"
  using assms by (simp add: int64_of_float64_def signed_of_int signed_take_bit_int_eq_self)

lemma toZero_neg_half: "toZero (- (1 / 2)) = 0"
  by (simp add: toZero_def ceiling_eq_iff)

subsection \<open>The two ratio policies\<close>

lemma float_gt_irrefl: "\<not> float_gt x x"
  by (cases x) simp_all

lemma isTripped_errorRatio:
  "cbFactor c = factorErrorRatio \<Longrightarrow> metrics c = Some m \<Longrightarrow>
   isTripped E c = IsTripped (float_gt (NetworkErrorRatio E m) (Threshold c))"
  by (simp add: isTripped_def)

lemma isTripped_statusCodeRatio:
  "cbFactor c = factorStatusCodeRatio \<Longrightarrow> metrics c = Some m \<Longrightarrow>
   isTripped E c = IsTripped (float_gt (ResponseCodeRatio E m 500 600 0 600) (Threshold c))"
  by (simp add: isTripped_def factorStatusCodeRatio_def factorErrorRatio_def factorLatency_def)

text \<open>
  C2: on a provisioned breaker, let \<open>ratio\<close> be the engine's network-error ratio under
  the error-ratio factor, and its response-code ratio for the ranges 500 to 600 over 0
  to 600 under the status-ratio factor. If \<open>ratio\<close> is greater than the threshold the
  breaker trips: the check resets the engine, takes the tripped counter from
  \<open>tripped c\<close> to \<open>tripped c + 1\<close> (so that \<^verbatim>\<open>OK\<close> answers false when the counter was
  0), waits for the trip duration and takes the counter back. Otherwise the check
  returns with the breaker as it was. The comparison is strict: a ratio equal to the
  threshold does not trip.
\<close>

theorem ratio_policies:
  assumes "metrics c = Some m"
      and "cbFactor c = factorErrorRatio \<and> NetworkErrorRatio E m = ratio
           \<or> cbFactor c = factorStatusCodeRatio \<and> ResponseCodeRatio E m 500 600 0 600 = ratio"
  shows "checkAndSet E now c =
           (if float_gt ratio (Threshold c) then
              [(now, AtReset, c),
               (now, AtInc, c\<lparr>metrics := Some (Reset E m)\<rparr>),
               (now, AtNewTimer, c\<lparr>metrics := Some (Reset E m), tripped := tripped c + 1\<rparr>),
               (now, AtRecv (now + sint (TripDuration c)),
                  c\<lparr>metrics := Some (Reset E m), tripped := tripped c + 1\<rparr>),
               (max now (now + sint (TripDuration c)), AtDec,
                  c\<lparr>metrics := Some (Reset E m), tripped := tripped c + 1\<rparr>),
               (max now (now + sint (TripDuration c)), Returned,
                  c\<lparr>metrics := Some (Reset E m)\<rparr>)]
            else [(now, Returned, c)])
       \<and> (tripOccurs (checkAndSet E now c) \<longleftrightarrow> float_gt ratio (Threshold c))
       \<and> (ratio = Threshold c \<longrightarrow> checkAndSet E now c = [(now, Returned, c)])
       \<and> (float_gt ratio (Threshold c) \<and> tripped c = 0 \<longrightarrow>
            \<not> fst (OK (c\<lparr>metrics := Some (Reset E m), tripped := tripped c + 1\<rparr>)))"
proof (intro conjI impI)
  have v: "isTripped E c = IsTripped (float_gt ratio (Threshold c))"
  proof -
    from assms(2) consider
        "cbFactor c = factorErrorRatio" and "NetworkErrorRatio E m = ratio"
      | "cbFactor c = factorStatusCodeRatio" and "ResponseCodeRatio E m 500 600 0 600 = ratio"
      by blast
    then show ?thesis
    proof cases
      case 1
      with assms(1) show ?thesis using isTripped_errorRatio [of c m E] by simp
    next
      case 2
      with assms(1) show ?thesis using isTripped_statusCodeRatio [of c m E] by simp
    qed
  qed
  show tr: "checkAndSet E now c =
           (if float_gt ratio (Threshold c) then
              [(now, AtReset, c),
               (now, AtInc, c\<lparr>metrics := Some (Reset E m)\<rparr>),
               (now, AtNewTimer, c\<lparr>metrics := Some (Reset E m), tripped := tripped c + 1\<rparr>),
               (now, AtRecv (now + sint (TripDuration c)),
                  c\<lparr>metrics := Some (Reset E m), tripped := tripped c + 1\<rparr>),
               (max now (now + sint (TripDuration c)), AtDec,
                  c\<lparr>metrics := Some (Reset E m), tripped := tripped c + 1\<rparr>),
               (max now (now + sint (TripDuration c)), Returned,
                  c\<lparr>metrics := Some (Reset E m)\<rparr>)]
            else [(now, Returned, c)])"
    using v assms(1) by (rule checkAndSet_verdict)
  show "tripOccurs (checkAndSet E now c) \<longleftrightarrow> float_gt ratio (Threshold c)"
    using v by (simp add: tripOccurs_iff)
  show "checkAndSet E now c = [(now, Returned, c)]" if "ratio = Threshold c"
    unfolding tr using that by (simp only: float_gt_irrefl if_False)
  show "\<not> fst (OK (c\<lparr>metrics := Some (Reset E m), tripped := tripped c + 1\<rparr>))"
    if "float_gt ratio (Threshold c) \<and> tripped c = 0"
    using that by (simp add: OK_def)
qed

text \<open>
  A window holding one 500 (status ratio 1) or one 502 (error ratio 1). With a
  threshold of 0.5 the engine is reset and the counter goes to 1 and back; with a
  threshold of 1 the breaker is left as it was.
\<close>

theorem ratio_policies_witness:
  "checkAndSet window1 0
      \<lparr>Threshold = Finite (1 / 2), Factor = ''status_ratio'', TripDuration = 1000000000,
       tripped = 0, cbFactor = 3, metrics = Some (Some (500, 7))\<rparr>
     = [(0, AtReset, \<lparr>Threshold = Finite (1 / 2), Factor = ''status_ratio'',
           TripDuration = 1000000000, tripped = 0, cbFactor = 3, metrics = Some (Some (500, 7))\<rparr>),
        (0, AtInc, \<lparr>Threshold = Finite (1 / 2), Factor = ''status_ratio'',
           TripDuration = 1000000000, tripped = 0, cbFactor = 3, metrics = Some None\<rparr>),
        (0, AtNewTimer, \<lparr>Threshold = Finite (1 / 2), Factor = ''status_ratio'',
           TripDuration = 1000000000, tripped = 1, cbFactor = 3, metrics = Some None\<rparr>),
        (0, AtRecv 1000000000, \<lparr>Threshold = Finite (1 / 2), Factor = ''status_ratio'',
           TripDuration = 1000000000, tripped = 1, cbFactor = 3, metrics = Some None\<rparr>),
        (1000000000, AtDec, \<lparr>Threshold = Finite (1 / 2), Factor = ''status_ratio'',
           TripDuration = 1000000000, tripped = 1, cbFactor = 3, metrics = Some None\<rparr>),
        (1000000000, Returned, \<lparr>Threshold = Finite (1 / 2), Factor = ''status_ratio'',
           TripDuration = 1000000000, tripped = 0, cbFactor = 3, metrics = Some None\<rparr>)]
   \<and> \<not> fst (OK \<lparr>Threshold = Finite (1 / 2), Factor = ''status_ratio'',
           TripDuration = 1000000000, tripped = 1, cbFactor = 3, metrics = Some None\<rparr>)
   \<and> checkAndSet window1 0
      \<lparr>Threshold = Finite 1, Factor = ''status_ratio'', TripDuration = 1000000000,
       tripped = 0, cbFactor = 3, metrics = Some (Some (500, 7))\<rparr>
     = [(0, Returned, \<lparr>Threshold = Finite 1, Factor = ''status_ratio'',
           TripDuration = 1000000000, tripped = 0, cbFactor = 3, metrics = Some (Some (500, 7))\<rparr>)]
   \<and> tripOccurs (checkAndSet window1 0
      \<lparr>Threshold = Finite (1 / 2), Factor = ''error_ratio'', TripDuration = 1000000000,
       tripped = 0, cbFactor = 2, metrics = Some (Some (502, 7))\<rparr>)
   \<and> checkAndSet window1 0
      \<lparr>Threshold = Finite 1, Factor = ''error_ratio'', TripDuration = 1000000000,
       tripped = 0, cbFactor = 2, metrics = Some (Some (502, 7))\<rparr>
     = [(0, Returned, \<lparr>Threshold = Finite 1, Factor = ''error_ratio'',
           TripDuration = 1000000000, tripped = 0, cbFactor = 2, metrics = Some (Some (502, 7))\<rparr>)]"
  using ratio_policies [where E = window1 and now = 0 and m = "Some (500, 7)" and
      ratio = "Finite 1" and
      c = "\<lparr>Threshold = Finite (1 / 2), Factor = ''status_ratio'', TripDuration = 1000000000,
       tripped = 0, cbFactor = 3, metrics = Some (Some (500, 7))\<rparr>"]
    ratio_policies [where E = window1 and now = 0 and m = "Some (500, 7)" and
      ratio = "Finite 1" and
      c = "\<lparr>Threshold = Finite 1, Factor = ''status_ratio'', TripDuration = 1000000000,
       tripped = 0, cbFactor = 3, metrics = Some (Some (500, 7))\<rparr>"]
    ratio_policies [where E = window1 and now = 0 and m = "Some (502, 7)" and
      ratio = "Finite 1" and
      c = "\<lparr>Threshold = Finite (1 / 2), Factor = ''error_ratio'', TripDuration = 1000000000,
       tripped = 0, cbFactor = 2, metrics = Some (Some (502, 7))\<rparr>"]
    ratio_policies [where E = window1 and now = 0 and m = "Some (502, 7)" and
      ratio = "Finite 1" and
      c = "\<lparr>Threshold = Finite 1, Factor = ''error_ratio'', TripDuration = 1000000000,
       tripped = 0, cbFactor = 2, metrics = Some (Some (502, 7))\<rparr>"]
  by (simp add: window1_def factorStatusCodeRatio_def factorErrorRatio_def OK_def tripOccurs_def)

subsection \<open>The latency policy\<close>

text \<open>
  C1, as the code has it. Under the latency factor the histogram is asked for the
  latency at quantile \<^verbatim>\<open>c.Threshold\<close>, the configured threshold itself. When the query
  succeeds with latency \<open>L\<close> nanoseconds, and the threshold \<open>t\<close> is finite and within
  the range of \<^verbatim>\<open>int64\<close>, the breaker trips if and only if \<open>L\<close> in whole milliseconds
  exceeds \<open>t\<close>, both rounded towards zero; for \<open>L\<close> and \<open>t\<close> that are not negative this
  is: if and only if \<open>floor (L in ms) > t\<close>. When it trips, the check resets the
  engine, takes the tripped counter from \<open>tripped c\<close> to \<open>tripped c + 1\<close> (so that
  \<^verbatim>\<open>OK\<close> answers false when the counter was 0), waits for the trip duration and takes
  the counter back; when it does not, the check returns with the breaker as it was.
\<close>

theorem latency_policy:
  assumes "cbFactor c = factorLatency" and "metrics c = Some m"
      and "LatencyHistogram E m = Inr hist"
      and "sint (LatencyAtQuantile E hist (Threshold c)) = L"
      and "Threshold c = Finite t"
      and "- (2 ^ 63) \<le> toZero t" and "toZero t < 2 ^ 63"
  shows "checkAndSet E now c =
           (if toZero t < toZero (real_of_int L / 1000000) then
              [(now, AtReset, c),
               (now, AtInc, c\<lparr>metrics := Some (Reset E m)\<rparr>),
               (now, AtNewTimer, c\<lparr>metrics := Some (Reset E m), tripped := tripped c + 1\<rparr>),
               (now, AtRecv (now + sint (TripDuration c)),
                  c\<lparr>metrics := Some (Reset E m), tripped := tripped c + 1\<rparr>),
               (max now (now + sint (TripDuration c)), AtDec,
                  c\<lparr>metrics := Some (Reset E m), tripped := tripped c + 1\<rparr>),
               (max now (now + sint (TripDuration c)), Returned,
                  c\<lparr>metrics := Some (Reset E m)\<rparr>)]
            else [(now, Returned, c)])
       \<and> (tripOccurs (checkAndSet E now c) \<longleftrightarrow> toZero t < toZero (real_of_int L / 1000000))
       \<and> (0 \<le> L \<and> 0 \<le> t \<longrightarrow>
            checkAndSet E now c =
              (if t < real_of_int \<lfloor>real_of_int L / 1000000\<rfloor> then
                 [(now, AtReset, c),
                  (now, AtInc, c\<lparr>metrics := Some (Reset E m)\<rparr>),
                  (now, AtNewTimer, c\<lparr>metrics := Some (Reset E m), tripped := tripped c + 1\<rparr>),
                  (now, AtRecv (now + sint (TripDuration c)),
                     c\<lparr>metrics := Some (Reset E m), tripped := tripped c + 1\<rparr>),
                  (max now (now + sint (TripDuration c)), AtDec,
                     c\<lparr>metrics := Some (Reset E m), tripped := tripped c + 1\<rparr>),
                  (max now (now + sint (TripDuration c)), Returned,
                     c\<lparr>metrics := Some (Reset E m)\<rparr>)]
               else [(now, Returned, c)])
            \<and> (tripOccurs (checkAndSet E now c) \<longleftrightarrow> t < real_of_int \<lfloor>real_of_int L / 1000000\<rfloor>))
       \<and> (toZero t < toZero (real_of_int L / 1000000) \<and> tripped c = 0 \<longrightarrow>
            \<not> fst (OK (c\<lparr>metrics := Some (Reset E m), tripped := tripped c + 1\<rparr>)))"
proof -
  have "isTripped E c =
          IsTripped (toZero t < sint (LatencyAtQuantile E hist (Threshold c)) sdiv 1000000)"
    using assms(1,2,3,5,6,7)
    by (simp add: isTripped_def factorLatency_def factorErrorRatio_def Millisecond_def
        sint_int64_of_float64)
  then have v: "isTripped E c = IsTripped (toZero t < toZero (real_of_int L / 1000000))"
    unfolding assms(4) sdiv_toZero .
  note tr = checkAndSet_verdict [OF v assms(2), of now]
  have occurs: "tripOccurs (checkAndSet E now c) \<longleftrightarrow> toZero t < toZero (real_of_int L / 1000000)"
    using v by (simp add: tripOccurs_iff)
  have b: "toZero t < toZero (real_of_int L / 1000000) \<longleftrightarrow> t < real_of_int \<lfloor>real_of_int L / 1000000\<rfloor>"
    if "0 \<le> L" and "0 \<le> t"
    using that by (simp add: toZero_def floor_less_iff)
  have open_after: "\<not> fst (OK (c\<lparr>metrics := Some (Reset E m), tripped := tripped c + 1\<rparr>))"
    if "tripped c = 0"
    using that by (simp add: OK_def)
  show ?thesis
  proof (intro conjI impI)
    show "checkAndSet E now c =
           (if toZero t < toZero (real_of_int L / 1000000) then
              [(now, AtReset, c),
               (now, AtInc, c\<lparr>metrics := Some (Reset E m)\<rparr>),
               (now, AtNewTimer, c\<lparr>metrics := Some (Reset E m), tripped := tripped c + 1\<rparr>),
               (now, AtRecv (now + sint (TripDuration c)),
                  c\<lparr>metrics := Some (Reset E m), tripped := tripped c + 1\<rparr>),
               (max now (now + sint (TripDuration c)), AtDec,
                  c\<lparr>metrics := Some (Reset E m), tripped := tripped c + 1\<rparr>),
               (max now (now + sint (TripDuration c)), Returned,
                  c\<lparr>metrics := Some (Reset E m)\<rparr>)]
            else [(now, Returned, c)])"
      by (rule tr)
    show "tripOccurs (checkAndSet E now c) \<longleftrightarrow> toZero t < toZero (real_of_int L / 1000000)"
      by (rule occurs)
    show "checkAndSet E now c =
              (if t < real_of_int \<lfloor>real_of_int L / 1000000\<rfloor> then
                 [(now, AtReset, c),
                  (now, AtInc, c\<lparr>metrics := Some (Reset E m)\<rparr>),
                  (now, AtNewTimer, c\<lparr>metrics := Some (Reset E m), tripped := tripped c + 1\<rparr>),
                  (now, AtRecv (now + sint (TripDuration c)),
                     c\<lparr>metrics := Some (Reset E m), tripped := tripped c + 1\<rparr>),
                  (max now (now + sint (TripDuration c)), AtDec,
                     c\<lparr>metrics := Some (Reset E m), tripped := tripped c + 1\<rparr>),
                  (max now (now + sint (TripDuration c)), Returned,
                     c\<lparr>metrics := Some (Reset E m)\<rparr>)]
               else [(now, Returned, c)])"
      if "0 \<le> L \<and> 0 \<le> t"
      using tr b that by (simp only:)
    show "tripOccurs (checkAndSet E now c) \<longleftrightarrow> t < real_of_int \<lfloor>real_of_int L / 1000000\<rfloor>"
      if "0 \<le> L \<and> 0 \<le> t"
      using occurs b that by (simp only:)
    show "\<not> fst (OK (c\<lparr>metrics := Some (Reset E m), tripped := tripped c + 1\<rparr>))"
      if "toZero t < toZero (real_of_int L / 1000000) \<and> tripped c = 0"
      using that open_after by blast
  qed
qed

text \<open>
  A threshold of 200. A window whose only latency is 900 ms: the hypotheses hold, 900
  exceeds 200, the engine is reset and the counter goes to 1 and back. A window whose
  only latency is 200.999999 ms: 200 does not exceed 200 and the breaker is left as
  it was.
\<close>

theorem latency_policy_witness:
  "checkAndSet window1 0
      \<lparr>Threshold = Finite 200, Factor = ''latency'', TripDuration = 5000000000,
       tripped = 0, cbFactor = 1, metrics = Some (Some (200, 900000000))\<rparr>
     = [(0, AtReset, \<lparr>Threshold = Finite 200, Factor = ''latency'', TripDuration = 5000000000,
           tripped = 0, cbFactor = 1, metrics = Some (Some (200, 900000000))\<rparr>),
        (0, AtInc, \<lparr>Threshold = Finite 200, Factor = ''latency'', TripDuration = 5000000000,
           tripped = 0, cbFactor = 1, metrics = Some None\<rparr>),
        (0, AtNewTimer, \<lparr>Threshold = Finite 200, Factor = ''latency'', TripDuration = 5000000000,
           tripped = 1, cbFactor = 1, metrics = Some None\<rparr>),
        (0, AtRecv 5000000000, \<lparr>Threshold = Finite 200, Factor = ''latency'',
           TripDuration = 5000000000, tripped = 1, cbFactor = 1, metrics = Some None\<rparr>),
        (5000000000, AtDec, \<lparr>Threshold = Finite 200, Factor = ''latency'',
           TripDuration = 5000000000, tripped = 1, cbFactor = 1, metrics = Some None\<rparr>),
        (5000000000, Returned, \<lparr>Threshold = Finite 200, Factor = ''latency'',
           TripDuration = 5000000000, tripped = 0, cbFactor = 1, metrics = Some None\<rparr>)]
   \<and> \<not> fst (OK \<lparr>Threshold = Finite 200, Factor = ''latency'', TripDuration = 5000000000,
           tripped = 1, cbFactor = 1, metrics = Some None\<rparr>)
   \<and> (200 :: real) < real_of_int \<lfloor>real_of_int (sint (900000000 :: 64 word)) / 1000000\<rfloor>
   \<and> LatencyHistogram window1 (Some (200, 900000000)) = Inr 900000000
   \<and> (0 :: int) \<le> sint (LatencyAtQuantile window1 900000000 (Finite 200))
   \<and> checkAndSet window1 0
      \<lparr>Threshold = Finite 200, Factor = ''latency'', TripDuration = 5000000000,
       tripped = 0, cbFactor = 1, metrics = Some (Some (200, 200999999))\<rparr>
     = [(0, Returned, \<lparr>Threshold = Finite 200, Factor = ''latency'', TripDuration = 5000000000,
           tripped = 0, cbFactor = 1, metrics = Some (Some (200, 200999999))\<rparr>)]"
  using latency_policy [of "\<lparr>Threshold = Finite 200, Factor = ''latency'',
       TripDuration = 5000000000, tripped = 0, cbFactor = 1,
       metrics = Some (Some (200, 900000000))\<rparr>"
       "Some (200, 900000000)" window1 900000000 900000000 200 0]
    latency_policy [of "\<lparr>Threshold = Finite 200, Factor = ''latency'',
       TripDuration = 5000000000, tripped = 0, cbFactor = 1,
       metrics = Some (Some (200, 200999999))\<rparr>"
       "Some (200, 200999999)" window1 200999999 200999999 200 0]
  by (simp add: window1_def factorLatency_def toZero_def OK_def)

text \<open>
  C1 as the specification words it compares \<open>floor (L in ms)\<close> with the threshold
  itself. With a threshold of \<open>-0.5\<close> and a latency of half a millisecond that
  comparison holds (\<open>0 > -0.5\<close>), but \<^verbatim>\<open>int64(c.Threshold)\<close> is 0: the check returns
  with the breaker as it was, and no trip occurs.
\<close>

theorem latency_policy_counterexample:
  "\<not> (tripOccurs (checkAndSet window1 0
      \<lparr>Threshold = Finite (- (1 / 2)), Factor = ''latency'', TripDuration = 5000000000,
       tripped = 0, cbFactor = 1, metrics = Some (Some (200, 500000))\<rparr>)
     \<longleftrightarrow> float_gt (Finite (real_of_int \<lfloor>real_of_int (sint (500000 :: 64 word)) / 1000000\<rfloor>))
                   (Finite (- (1 / 2))))
   \<and> float_gt (Finite (real_of_int \<lfloor>real_of_int (sint (500000 :: 64 word)) / 1000000\<rfloor>))
                   (Finite (- (1 / 2)))
   \<and> checkAndSet window1 0
      \<lparr>Threshold = Finite (- (1 / 2)), Factor = ''latency'', TripDuration = 5000000000,
       tripped = 0, cbFactor = 1, metrics = Some (Some (200, 500000))\<rparr>
     = [(0, Returned, \<lparr>Threshold = Finite (- (1 / 2)), Factor = ''latency'',
           TripDuration = 5000000000, tripped = 0, cbFactor = 1,
           metrics = Some (Some (200, 500000))\<rparr>)]"
  by (simp add: checkAndSet_def tripOccurs_def isTripped_def window1_def
      factorLatency_def factorErrorRatio_def factorStatusCodeRatio_def int64_of_float64_def
      toZero_neg_half Millisecond_def signed_divide_int_def)

text \<open>
  C5: under the latency factor, when the histogram query fails the check returns at
  once. The call consists of that return alone: the breaker, with its tripped counter
  and its statistics window, is as before, no trip occurs and the call does not panic.
  A \<^verbatim>\<open>RecordMetric\<close> whose query fails records the observation and returns.
\<close>

theorem latency_query_failure:
  assumes "cbFactor c = factorLatency" and "metrics c = Some m"
  shows "(LatencyHistogram E m = Inl err \<longrightarrow>
            checkAndSet E now c = [(now, Returned, c)] \<and> \<not> tripOccurs (checkAndSet E now c))
       \<and> (LatencyHistogram E (Record E statusCode latency m) = Inl err \<longrightarrow>
            RecordMetric E now statusCode latency c =
              [(now, AtSwitch, c\<lparr>metrics := Some (Record E statusCode latency m)\<rparr>),
               (now, Returned, c\<lparr>metrics := Some (Record E statusCode latency m)\<rparr>)])"
  using assms
  by (simp add: checkAndSet_def RecordMetric_def tripOccurs_def isTripped_def
      factorLatency_def factorErrorRatio_def)

text \<open>
  The query fails on the empty window of a breaker just provisioned; and an engine
  whose histogram query always fails still records.
\<close>

theorem latency_query_failure_witness:
  "checkAndSet window1 0
      \<lparr>Threshold = Finite 200, Factor = ''latency'', TripDuration = 1000000000,
       tripped = 0, cbFactor = 1, metrics = Some None\<rparr>
     = [(0, Returned, \<lparr>Threshold = Finite 200, Factor = ''latency'', TripDuration = 1000000000,
       tripped = 0, cbFactor = 1, metrics = Some None\<rparr>)]
   \<and> RecordMetric (window1\<lparr>LatencyHistogram := \<lambda>m. Inl ''merge failed''\<rparr>) 0 200 900000000
      \<lparr>Threshold = Finite 200, Factor = ''latency'', TripDuration = 1000000000,
       tripped = 0, cbFactor = 1, metrics = Some None\<rparr>
     = [(0, AtSwitch, \<lparr>Threshold = Finite 200, Factor = ''latency'', TripDuration = 1000000000,
       tripped = 0, cbFactor = 1, metrics = Some (Some (200, 900000000))\<rparr>),
        (0, Returned, \<lparr>Threshold = Finite 200, Factor = ''latency'', TripDuration = 1000000000,
       tripped = 0, cbFactor = 1, metrics = Some (Some (200, 900000000))\<rparr>)]"
  using latency_query_failure [where E = window1 and now = 0 and m = None and
      err = "''empty window''" and
      c = "\<lparr>Threshold = Finite 200, Factor = ''latency'', TripDuration = 1000000000,
       tripped = 0, cbFactor = 1, metrics = Some None\<rparr>"]
    latency_query_failure [where E = "window1\<lparr>LatencyHistogram := \<lambda>m. Inl ''merge failed''\<rparr>"
      and now = 0 and m = None and err = "''merge failed''" and statusCode = 200
      and latency = 900000000 and
      c = "\<lparr>Threshold = Finite 200, Factor = ''latency'', TripDuration = 1000000000,
       tripped = 0, cbFactor = 1, metrics = Some None\<rparr>"]
  by (simp add: window1_def factorLatency_def)

subsection \<open>The trip\<close>

text \<open>
  C3: when the threshold is exceeded, the call executes, in this order, the reset of
  the statistics engine, the increment of the tripped counter, the creation of a timer
  for \<^verbatim>\<open>TripDuration\<close>, the wait for that timer and the decrement of the counter. From
  the increment on the engine holds what \<^verbatim>\<open>Reset\<close> left, so two breakers that differ
  only in the history of their windows, and whose engines reset to the same window,
  cannot be told apart from the reset on: not in the rest of the call, and so not in
  any call that follows.
\<close>

theorem trip_sequence:
  assumes "isTripped E c = IsTripped True" and "metrics c = Some m"
  shows "checkAndSet E now c =
      [(now, AtReset, c),
       (now, AtInc, c\<lparr>metrics := Some (Reset E m)\<rparr>),
       (now, AtNewTimer, c\<lparr>metrics := Some (Reset E m), tripped := tripped c + 1\<rparr>),
       (now, AtRecv (now + sint (TripDuration c)),
          c\<lparr>metrics := Some (Reset E m), tripped := tripped c + 1\<rparr>),
       (max now (now + sint (TripDuration c)), AtDec,
          c\<lparr>metrics := Some (Reset E m), tripped := tripped c + 1\<rparr>),
       (max now (now + sint (TripDuration c)), Returned, c\<lparr>metrics := Some (Reset E m)\<rparr>)]
     \<and> (isTripped E (c\<lparr>metrics := Some m'\<rparr>) = IsTripped True \<and> Reset E m' = Reset E m \<longrightarrow>
          tl (checkAndSet E now (c\<lparr>metrics := Some m'\<rparr>)) = tl (checkAndSet E now c))"
proof -
  have a: "checkAndSet E now c =
      [(now, AtReset, c),
       (now, AtInc, c\<lparr>metrics := Some (Reset E m)\<rparr>),
       (now, AtNewTimer, c\<lparr>metrics := Some (Reset E m), tripped := tripped c + 1\<rparr>),
       (now, AtRecv (now + sint (TripDuration c)),
          c\<lparr>metrics := Some (Reset E m), tripped := tripped c + 1\<rparr>),
       (max now (now + sint (TripDuration c)), AtDec,
          c\<lparr>metrics := Some (Reset E m), tripped := tripped c + 1\<rparr>),
       (max now (now + sint (TripDuration c)), Returned, c\<lparr>metrics := Some (Reset E m)\<rparr>)]"
    unfolding checkAndSet_def using assms by (rule run_trip)
  have b: "tl (checkAndSet E now (c\<lparr>metrics := Some m'\<rparr>)) = tl (checkAndSet E now c)"
    if "isTripped E (c\<lparr>metrics := Some m'\<rparr>) = IsTripped True" and "Reset E m' = Reset E m"
    unfolding a unfolding checkAndSet_def
    using run_trip [OF that(1), of m' now] that(2) by simp
  from a b show ?thesis by blast
qed

text \<open>
  A one-second breaker whose window holds a 500, at instant 100: the six statements,
  and the same statements from the reset on had the window held a 503.
\<close>

theorem trip_sequence_witness:
  "checkAndSet window1 100
      \<lparr>Threshold = Finite (1 / 2), Factor = ''status_ratio'', TripDuration = 1000000000,
       tripped = 0, cbFactor = 3, metrics = Some (Some (500, 7))\<rparr>
     = [(100, AtReset, \<lparr>Threshold = Finite (1 / 2), Factor = ''status_ratio'',
           TripDuration = 1000000000, tripped = 0, cbFactor = 3, metrics = Some (Some (500, 7))\<rparr>),
        (100, AtInc, \<lparr>Threshold = Finite (1 / 2), Factor = ''status_ratio'',
           TripDuration = 1000000000, tripped = 0, cbFactor = 3, metrics = Some None\<rparr>),
        (100, AtNewTimer, \<lparr>Threshold = Finite (1 / 2), Factor = ''status_ratio'',
           TripDuration = 1000000000, tripped = 1, cbFactor = 3, metrics = Some None\<rparr>),
        (100, AtRecv 1000000100, \<lparr>Threshold = Finite (1 / 2), Factor = ''status_ratio'',
           TripDuration = 1000000000, tripped = 1, cbFactor = 3, metrics = Some None\<rparr>),
        (1000000100, AtDec, \<lparr>Threshold = Finite (1 / 2), Factor = ''status_ratio'',
           TripDuration = 1000000000, tripped = 1, cbFactor = 3, metrics = Some None\<rparr>),
        (1000000100, Returned, \<lparr>Threshold = Finite (1 / 2), Factor = ''status_ratio'',
           TripDuration = 1000000000, tripped = 0, cbFactor = 3, metrics = Some None\<rparr>)]
   \<and> tl (checkAndSet window1 100
      \<lparr>Threshold = Finite (1 / 2), Factor = ''status_ratio'', TripDuration = 1000000000,
       tripped = 0, cbFactor = 3, metrics = Some (Some (503, 9))\<rparr>)
     = tl (checkAndSet window1 100
      \<lparr>Threshold = Finite (1 / 2), Factor = ''status_ratio'', TripDuration = 1000000000,
       tripped = 0, cbFactor = 3, metrics = Some (Some (500, 7))\<rparr>)"
  using trip_sequence [where E = window1 and now = 100 and m = "Some (500, 7)" and
      m' = "Some (503, 9)" and
      c = "\<lparr>Threshold = Finite (1 / 2), Factor = ''status_ratio'', TripDuration = 1000000000,
       tripped = 0, cbFactor = 3, metrics = Some (Some (500, 7))\<rparr>"]
  by (simp add: window1_def isTripped_def factorStatusCodeRatio_def factorErrorRatio_def
      factorLatency_def)

subsection \<open>Recovery\<close>









subsection \<open>Provision\<close>

lemma typeCB_None: "typeCB s = None \<longleftrightarrow> s \<noteq> ''latency'' \<and> s \<noteq> ''error_ratio'' \<and> s \<noteq> ''status_ratio''"
  by (simp add: typeCB_def)

lemma defaultTripDuration_value: "sint defaultTripDuration = 5 * 10 ^ 9 \<and> defaultTripDuration \<noteq> 0"
  by (simp add: defaultTripDuration_def Second_def)

text \<open>
  C6: when the factor string is none of \<open>latency\<close>, \<open>error_ratio\<close> and
  \<open>status_ratio\<close>, \<^verbatim>\<open>Provision\<close> returns the error \<open>type is not defined\<close> and leaves the
  breaker as it found it, unprovisioned; each of the three strings is in the factor
  table.
\<close>

theorem Provision_unknown_factor:
  "(Factor c \<noteq> ''latency'' \<and> Factor c \<noteq> ''error_ratio'' \<and> Factor c \<noteq> ''status_ratio''
      \<longrightarrow> Provision E c = (Some ''type is not defined'', c))
   \<and> typeCB ''latency'' = Some factorLatency
   \<and> typeCB ''error_ratio'' = Some factorErrorRatio
   \<and> typeCB ''status_ratio'' = Some factorStatusCodeRatio"
proof -
  have "Provision E c = (Some ''type is not defined'', c)"
    if "Factor c \<noteq> ''latency''" and "Factor c \<noteq> ''error_ratio''"
      and "Factor c \<noteq> ''status_ratio''"
  proof -
    from that have "typeCB (Factor c) = None"
      by (simp add: typeCB_None)
    then show ?thesis
      by (simp add: Provision_def)
  qed
  moreover have "typeCB ''latency'' = Some factorLatency"
    and "typeCB ''error_ratio'' = Some factorErrorRatio"
    and "typeCB ''status_ratio'' = Some factorStatusCodeRatio"
    by (simp_all add: typeCB_def)
  ultimately show ?thesis by blast
qed

text \<open>The empty string and a string that differs in case are rejected.\<close>

theorem Provision_unknown_factor_witness:
  "Provision window1 (configured (Finite (1 / 2)) '''' 0)
     = (Some ''type is not defined'', configured (Finite (1 / 2)) '''' 0)
   \<and> Provision window1 (configured (Finite (1 / 2)) ''Latency'' 0)
     = (Some ''type is not defined'', configured (Finite (1 / 2)) ''Latency'' 0)"
  using Provision_unknown_factor [of "configured (Finite (1 / 2)) '''' 0" window1]
    Provision_unknown_factor [of "configured (Finite (1 / 2)) ''Latency'' 0" window1]
  by (simp add: configured_def)

text \<open>
  C8, as the code has it. When the factor string is recognised and \<^verbatim>\<open>TripDuration\<close> is
  zero, \<^verbatim>\<open>Provision\<close> sets it to the default of 5 seconds, whether or not the engine
  can then be constructed; when \<^verbatim>\<open>TripDuration\<close> is not zero, or the factor string is
  not recognised, \<^verbatim>\<open>Provision\<close> leaves it as it is.
\<close>

theorem Provision_tripDuration:
  "(typeCB (Factor c) \<noteq> None \<and> TripDuration c = 0
      \<longrightarrow> TripDuration (snd (Provision E c)) = defaultTripDuration)
   \<and> (TripDuration c \<noteq> 0 \<or> typeCB (Factor c) = None
      \<longrightarrow> TripDuration (snd (Provision E c)) = TripDuration c)
   \<and> sint defaultTripDuration = 5 * 10 ^ 9"
proof (cases "typeCB (Factor c)")
  case None
  then have "snd (Provision E c) = c"
    by (simp add: Provision_def)
  with None show ?thesis
    by (simp add: defaultTripDuration_value)
next
  case (Some f)
  have "TripDuration (snd (Provision E c))
          = (if TripDuration c = 0 then defaultTripDuration else TripDuration c)"
  proof (cases "NewRTMetrics E")
    case (Inl err)
    with Some show ?thesis by (simp add: Provision_def Let_def)
  next
    case (Inr mt)
    with Some show ?thesis by (simp add: Provision_def Let_def)
  qed
  with Some show ?thesis
    by (simp add: defaultTripDuration_value)
qed

text \<open>An unset duration, a duration of one second, and an unset duration with an unknown factor.\<close>

theorem Provision_tripDuration_witness:
  "TripDuration (snd (Provision window1 (configured (Finite (1 / 2)) ''status_ratio'' 0))) = 5000000000
   \<and> TripDuration (snd (Provision window1 (configured (Finite (1 / 2)) ''status_ratio'' 1000000000)))
       = 1000000000
   \<and> TripDuration (snd (Provision window1 (configured (Finite (1 / 2)) ''ratio'' 0))) = 0"
  using Provision_tripDuration [of "configured (Finite (1 / 2)) ''status_ratio'' 0" window1]
    Provision_tripDuration [of "configured (Finite (1 / 2)) ''status_ratio'' 1000000000" window1]
    Provision_tripDuration [of "configured (Finite (1 / 2)) ''ratio'' 0" window1]
  by (simp add: configured_def typeCB_def defaultTripDuration_def Second_def)

text \<open>
  C8 as the specification words it holds of every run of \<^verbatim>\<open>Provision\<close>. With an empty
  factor string and a zero \<^verbatim>\<open>TripDuration\<close>, \<^verbatim>\<open>Provision\<close> returns at line 54 and the
  duration is still zero.
\<close>

theorem Provision_tripDuration_counterexample:
  "TripDuration (configured (Finite (1 / 2)) '''' 0 :: (int \<times> 64 word) option Simple) = 0
   \<and> TripDuration (snd (Provision window1 (configured (Finite (1 / 2)) '''' 0)))
       \<noteq> defaultTripDuration"
  by (simp add: configured_def Provision_def typeCB_def defaultTripDuration_def Second_def)

text \<open>
  C9: after a \<^verbatim>\<open>Provision\<close> that returns nil the tripped counter is 0, so \<^verbatim>\<open>OK\<close>
  answers true; \<^verbatim>\<open>cbFactor\<close> is the entry of the factor table for the configured
  string; and \<^verbatim>\<open>metrics\<close> is the engine that \<^verbatim>\<open>NewRTMetrics\<close> has just returned.
  When \<^verbatim>\<open>Provision\<close> calls \<^verbatim>\<open>NewRTMetrics\<close>, which it does once the factor is
  recognised, and the call fails with \<open>err\<close>, \<^verbatim>\<open>Provision\<close> returns
  \<open>cannot create new metrics: err\<close>.
\<close>

theorem Provision_success:
  "(Provision E c = (None, c') \<longrightarrow>
      tripped c' = 0 \<and> fst (OK c')
      \<and> typeCB (Factor c) = Some (cbFactor c')
      \<and> (\<exists>mt. NewRTMetrics E = Inr mt \<and> metrics c' = Some mt))
   \<and> (typeCB (Factor c) = Some f \<and> NewRTMetrics E = Inl err \<longrightarrow>
        fst (Provision E c) = Some (''cannot create new metrics: '' @ err))"
proof -
  have ok: "tripped c' = 0 \<and> fst (OK c') \<and> typeCB (Factor c) = Some (cbFactor c')
      \<and> (\<exists>mt. NewRTMetrics E = Inr mt \<and> metrics c' = Some mt)"
    if nil: "Provision E c = (None, c')"
  proof (cases "typeCB (Factor c)")
    case None
    with nil show ?thesis by (simp add: Provision_def)
  next
    case (Some f)
    show ?thesis
    proof (cases "NewRTMetrics E")
      case (Inl err)
      with Some nil show ?thesis by (simp add: Provision_def Let_def)
    next
      case (Inr mt)
      with Some nil show ?thesis by (auto simp: Provision_def Let_def OK_def)
    qed
  qed
  have failed: "fst (Provision E c) = Some (''cannot create new metrics: '' @ err)"
    if "typeCB (Factor c) = Some f" and "NewRTMetrics E = Inl err"
    using that by (simp add: Provision_def Let_def)
  from ok failed show ?thesis by blast
qed

text \<open>A status-ratio breaker, with an engine that can be constructed and with one that cannot.\<close>

theorem Provision_success_witness:
  "Provision window1 (configured (Finite (1 / 2)) ''status_ratio'' 0)
     = (None, \<lparr>Threshold = Finite (1 / 2), Factor = ''status_ratio'', TripDuration = 5000000000,
               tripped = 0, cbFactor = 3, metrics = Some None\<rparr>)
   \<and> typeCB ''status_ratio'' = Some 3
   \<and> fst (Provision (window1\<lparr>NewRTMetrics := Inl ''no memory''\<rparr>)
            (configured (Finite (1 / 2)) ''status_ratio'' 0))
       = Some ''cannot create new metrics: no memory''"
  using Provision_success [of window1 "configured (Finite (1 / 2)) ''status_ratio'' 0"
      "\<lparr>Threshold = Finite (1 / 2), Factor = ''status_ratio'', TripDuration = 5000000000,
               tripped = 0, cbFactor = 3, metrics = Some None\<rparr>"]
    Provision_success [where E = "window1\<lparr>NewRTMetrics := Inl ''no memory''\<rparr>"
      and c = "configured (Finite (1 / 2)) ''status_ratio'' 0" and f = 3 and err = "''no memory''"]
  by (simp add: configured_def Provision_def typeCB_def window1_def defaultTripDuration_def Second_def
      factorStatusCodeRatio_def)

text \<open>
  C10: when the factor string is not recognised, \<^verbatim>\<open>Provision\<close> returns its error with
  the breaker exactly as it was, whatever the engine: no default is applied, no engine
  is constructed, \<^verbatim>\<open>cbFactor\<close> and \<^verbatim>\<open>tripped\<close> keep their values. When the factor
  is recognised and the construction of the engine fails, \<^verbatim>\<open>Provision\<close> returns an
  error with a breaker in which a zero \<^verbatim>\<open>TripDuration\<close> has become the default and
  nothing else has changed: then the breaker is not the one \<^verbatim>\<open>Provision\<close> was given.
\<close>

theorem Provision_failure_paths:
  "(typeCB (Factor c) = None \<longrightarrow> Provision E c = (Some ''type is not defined'', c))
   \<and> (typeCB (Factor c) = Some f \<and> NewRTMetrics E = Inl err \<longrightarrow>
        fst (Provision E c) \<noteq> None
        \<and> snd (Provision E c)
            = (if TripDuration c = 0 then c\<lparr>TripDuration := defaultTripDuration\<rparr> else c)
        \<and> (TripDuration c = 0 \<longrightarrow> snd (Provision E c) \<noteq> c))"
proof -
  have "c\<lparr>TripDuration := defaultTripDuration\<rparr> \<noteq> c" if "TripDuration c = 0"
  proof
    assume "c\<lparr>TripDuration := defaultTripDuration\<rparr> = c"
    then have "TripDuration (c\<lparr>TripDuration := defaultTripDuration\<rparr>) = TripDuration c"
      by simp
    with that show False
      by (simp add: defaultTripDuration_value)
  qed
  then show ?thesis
    by (simp add: Provision_def Let_def)
qed

text \<open>An engine that cannot be constructed, with an unknown factor and with a known one.\<close>

theorem Provision_failure_paths_witness:
  "Provision (window1\<lparr>NewRTMetrics := Inl ''no memory''\<rparr>) (configured (Finite (1 / 2)) ''ratio'' 0)
     = (Some ''type is not defined'', configured (Finite (1 / 2)) ''ratio'' 0)
   \<and> snd (Provision (window1\<lparr>NewRTMetrics := Inl ''no memory''\<rparr>)
            (configured (Finite (1 / 2)) ''latency'' 0))
       = configured (Finite (1 / 2)) ''latency'' 5000000000
   \<and> snd (Provision (window1\<lparr>NewRTMetrics := Inl ''no memory''\<rparr>)
            (configured (Finite (1 / 2)) ''latency'' 0))
       \<noteq> configured (Finite (1 / 2)) ''latency'' 0"
  using Provision_failure_paths [of "configured (Finite (1 / 2)) ''ratio'' 0"
      "window1\<lparr>NewRTMetrics := Inl ''no memory''\<rparr>"]
    Provision_failure_paths [where c = "configured (Finite (1 / 2)) ''latency'' 0" and f = 1
      and E = "window1\<lparr>NewRTMetrics := Inl ''no memory''\<rparr>" and err = "''no memory''"]
  by (simp add: configured_def typeCB_def window1_def defaultTripDuration_def Second_def
      factorLatency_def)

subsection \<open>OK\<close>

text \<open>
  C7: \<^verbatim>\<open>OK\<close> answers true exactly when the tripped counter is zero and leaves the
  breaker as it was; so \<open>n\<close> calls in a row leave it as it was, and the answer after
  them is the first answer.
\<close>

theorem OK_reads_tripped:
  "fst (OK c) = (tripped c = 0) \<and> snd (OK c) = c
   \<and> ((\<lambda>c. snd (OK c)) ^^ n) c = c
   \<and> fst (OK (((\<lambda>c. snd (OK c)) ^^ n) c)) = fst (OK c)"
proof -
  have "((\<lambda>c. snd (OK c)) ^^ n) c = c" for n
    by (induction n) (simp_all add: OK_def)
  then show ?thesis by (simp add: OK_def)
qed

end
